theory Spec2Isabelle
  imports Main "HOL-Library.AList"
begin

section \<open>Errors\<close>

text \<open>
  The error values of the program. \<open>EndOfList\<close> (package model), \<open>ErrFailedCheck\<close>
  and \<open>ErrMissingCheck\<close> (package renovatepr) are the three sentinel values the code
  compares against with \<open>==\<close>. \<open>Remote\<close> is an error returned by the GitHub client
  (its text is opaque to the program). \<open>Wrapped\<close> is \<open>fmt.Errorf("<text>: ... %v", err)\<close>:
  a new error value built around another one, so it is never equal to a sentinel.
  \<open>Errorf\<close> is \<open>fmt.Errorf\<close> around values that are not errors (a pull request
  number, a message of the platform).
\<close>

datatype error =
    EndOfList
  | ErrFailedCheck
  | ErrMissingCheck
  | Remote string
  | Wrapped string error
  | Errorf string int string

section \<open>The paged list generator (package model)\<close>

text \<open>
  What \<open>Retrieve\<close> hands back: the Go tuple \<open>(page, items, res, err)\<close>. Of
  \<open>res\<close> only \<open>res.NextPage\<close> is read, and only when \<open>err\<close> is nil.
  \<open>Retrieve\<close> is a closure; the state it reads and changes (the remote platform,
  or the captured counter of the tests) is the explicit world \<open>'w\<close>.
\<close>

record ('p, 'a) response =
  r_page :: "'p option"
  r_items :: "'a list"
  r_NextPage :: int
  r_err :: "error option"

type_synonym ('w, 'p, 'a) retrieve = "int \<Rightarrow> 'w \<Rightarrow> ('p, 'a) response \<times> 'w"

text \<open>The fields of \<open>PagedListGenerator\<close> other than \<open>Retrieve\<close>.\<close>

record ('p, 'a) PagedListGenerator =
  index :: nat
  nextPage :: int
  page :: "'p option"
  items :: "'a list"
  opts_Page :: int
  endOfList :: bool
  lastPage :: bool

text \<open>The zero value of the struct, as \<open>&model.PagedListGenerator{Retrieve: ...}\<close> builds it.\<close>

definition new_generator :: "('p, 'a) PagedListGenerator" where
  "new_generator =
     \<lparr>index = 0, nextPage = 0, page = None, items = [], opts_Page = 0,
      endOfList = False, lastPage = False\<rparr>"

definition getNextPage ::
  "('w, 'p, 'a) retrieve \<Rightarrow> ('p, 'a) PagedListGenerator \<Rightarrow> 'w
     \<Rightarrow> error option \<times> ('p, 'a) PagedListGenerator \<times> 'w" where
  "getNextPage Retrieve g w =
     (if \<not> lastPage g \<and> index g \<ge> length (items g) then
        let g1 = g\<lparr>index := 0\<rparr>;
            g2 = g1\<lparr>opts_Page := nextPage g1\<rparr>;
            (res, w') = Retrieve (opts_Page g2) w;
            g3 = g2\<lparr>page := r_page res, items := r_items res\<rparr>
        in (case r_err res of
              Some err \<Rightarrow> (Some err, g3, w')
            | None \<Rightarrow>
                let g4 = g3\<lparr>lastPage := (r_NextPage res = 0)\<rparr>;
                    g5 = g4\<lparr>nextPage := r_NextPage res\<rparr>;
                    g6 = g5\<lparr>endOfList := (index g5 \<ge> length (items g5) \<and> lastPage g5)\<rparr>
                in (None, g6, w'))
      else (None, g, w))"

text \<open>\<open>HasNext\<close> calls \<open>getNextPage\<close> and drops the error it returns.\<close>

definition HasNext ::
  "('w, 'p, 'a) retrieve \<Rightarrow> ('p, 'a) PagedListGenerator \<Rightarrow> 'w
     \<Rightarrow> bool \<times> ('p, 'a) PagedListGenerator \<times> 'w" where
  "HasNext Retrieve g w =
     (if \<not> endOfList g then
        (case getNextPage Retrieve g w of (err, g', w') \<Rightarrow> (\<not> endOfList g', g', w'))
      else (\<not> endOfList g, g, w))"

text \<open>
  What a call of \<open>Next\<close> does: it returns a page and an item, or it returns an error,
  or the slice access \<open>g.items[thisIndex]\<close> is out of range and the Go runtime panics.
\<close>

datatype ('p, 'a) next_result =
    Item "'p option" 'a
  | Failed error
  | IndexOutOfRange

text \<open>
  \<open>Next\<close> as in the two copies of the generator that test
  \<open>g.index >= len(g.items) && g.lastPage\<close> after \<open>getNextPage\<close>. The return
  statement reads \<open>g.items[thisIndex]\<close> after \<open>g.index\<close> and \<open>g.endOfList\<close>
  are written.
\<close>

definition Next ::
  "('w, 'p, 'a) retrieve \<Rightarrow> ('p, 'a) PagedListGenerator \<Rightarrow> 'w
     \<Rightarrow> ('p, 'a) next_result \<times> ('p, 'a) PagedListGenerator \<times> 'w" where
  "Next Retrieve g w =
     (if endOfList g then (Failed EndOfList, g, w)
      else
        (case getNextPage Retrieve g w of
           (Some err, g1, w1) \<Rightarrow> (Failed err, g1, w1)
         | (None, g1, w1) \<Rightarrow>
             if index g1 \<ge> length (items g1) \<and> lastPage g1 then
               (Failed EndOfList, g1\<lparr>endOfList := True\<rparr>, w1)
             else
               let thisIndex = index g1;
                   g2 = g1\<lparr>index := index g1 + 1\<rparr>;
                   g3 = g2\<lparr>endOfList := (index g2 \<ge> length (items g2) \<and> lastPage g2)\<rparr>
               in if thisIndex < length (items g3)
                  then (Item (page g3) (items g3 ! thisIndex), g3, w1)
                  else (IndexOutOfRange, g3, w1)))"

text \<open>
  \<open>Next\<close> as in the documented copy of the generator, which goes from
  \<open>getNextPage\<close> straight to \<open>thisIndex := g.index\<close>.
\<close>

definition Next_documented ::
  "('w, 'p, 'a) retrieve \<Rightarrow> ('p, 'a) PagedListGenerator \<Rightarrow> 'w
     \<Rightarrow> ('p, 'a) next_result \<times> ('p, 'a) PagedListGenerator \<times> 'w" where
  "Next_documented Retrieve g w =
     (if endOfList g then (Failed EndOfList, g, w)
      else
        (case getNextPage Retrieve g w of
           (Some err, g1, w1) \<Rightarrow> (Failed err, g1, w1)
         | (None, g1, w1) \<Rightarrow>
             let thisIndex = index g1;
                 g2 = g1\<lparr>index := index g1 + 1\<rparr>;
                 g3 = g2\<lparr>endOfList := (index g2 \<ge> length (items g2) \<and> lastPage g2)\<rparr>
             in if thisIndex < length (items g3)
                then (Item (page g3) (items g3 ! thisIndex), g3, w1)
                else (IndexOutOfRange, g3, w1)))"

subsection \<open>Driving a generator\<close>

text \<open>
  A caller is a sequence of calls of \<open>HasNext\<close> and \<open>Next\<close> in any order; what it
  sees is the sequence of their results. A panic ends the program, so nothing is seen
  after it.
\<close>

datatype call = CallHasNext | CallNext

datatype ('p, 'a) event = Has bool | Got "('p, 'a) next_result"

fun drive ::
  "('w, 'p, 'a) retrieve \<Rightarrow> call list \<Rightarrow> ('p, 'a) PagedListGenerator \<Rightarrow> 'w
     \<Rightarrow> ('p, 'a) event list" where
  "drive Retrieve [] g w = []"
| "drive Retrieve (CallHasNext # cs) g w =
     (case HasNext Retrieve g w of (b, g', w') \<Rightarrow> Has b # drive Retrieve cs g' w')"
| "drive Retrieve (CallNext # cs) g w =
     (case Next Retrieve g w of
        (IndexOutOfRange, g', w') \<Rightarrow> [Got IndexOutOfRange]
      | (r, g', w') \<Rightarrow> Got r # drive Retrieve cs g' w')"

text \<open>
  A remote listing of finitely many pages, addressed by page number as the GitHub API
  does it: page 0 and page 1 both name the first page, the response to page \<open>i\<close>
  (counted from 0) announces \<open>NextPage = i + 2\<close>, and the last page announces
  \<open>NextPage = 0\<close>. A listing of no pages at all answers with an empty last page.
  Every fetch succeeds and the world does not change.
\<close>

definition paged_Retrieve :: "'a list list \<Rightarrow> ('w, nat, 'a) retrieve" where
  "paged_Retrieve pgs p w =
     (let i = (if p \<le> 1 then 0 else nat (p - 1))
      in (\<lparr>r_page = Some i,
           r_items = (if i < length pgs then pgs ! i else []),
           r_NextPage = (if i + 1 < length pgs then int i + 2 else 0),
           r_err = None\<rparr>, w))"




text \<open>
  A remote whose first fetch fails and whose later fetches succeed with the single
  page \<open>[x]\<close>. The world counts the fetches issued so far.
\<close>

definition flaky_Retrieve :: "'a \<Rightarrow> (nat, unit, 'a) retrieve" where
  "flaky_Retrieve x p n =
     (if n = 0
      then (\<lparr>r_page = None, r_items = [], r_NextPage = 0,
             r_err = Some (Remote ''503 service unavailable'')\<rparr>, Suc n)
      else (\<lparr>r_page = Some (), r_items = [x], r_NextPage = 0, r_err = None\<rparr>, Suc n))"

subsection \<open>The generator over a paged listing\<close>




section \<open>Merging Renovate pull requests (package renovatepr)\<close>

subsection \<open>Data of the GitHub client\<close>

text \<open>
  Only what the program reads. The fields of a go-github struct are pointers and the
  program reads them through the getters (\<open>GetNumber\<close>, \<open>GetTitle\<close>, ...), which
  return the zero value for nil: a plain field below is the getter's result. The
  booleans \<open>Mergeable\<close>, \<open>Rebaseable\<close> and \<open>Merged\<close> keep nil apart. \<open>Head\<close>
  (read as \<open>activePr.Head.SHA\<close>) and the \<open>App\<close> of a check run (read as
  \<open>status.GetApp().ID\<close>) are taken to be present, as the API sends them.
\<close>

record pull_request =
  pr_Number :: int
  pr_Login :: string
  pr_Title :: string
  pr_NodeID :: "string option"
  pr_HeadSHA :: string
  pr_HeadRef :: string
  pr_Mergeable :: "bool option"
  pr_Rebaseable :: "bool option"
  pr_State :: string

definition GetMergeable :: "pull_request \<Rightarrow> bool" where
  "GetMergeable pr = (case pr_Mergeable pr of None \<Rightarrow> False | Some b \<Rightarrow> b)"

definition GetRebaseable :: "pull_request \<Rightarrow> bool" where
  "GetRebaseable pr = (case pr_Rebaseable pr of None \<Rightarrow> False | Some b \<Rightarrow> b)"

record required_check =
  rc_Context :: string
  rc_AppID :: "int option"

record repo_status =
  st_Context :: string
  st_State :: string

record check_run =
  cr_Name :: string
  cr_Conclusion :: string
  cr_Status :: string
  cr_AppID :: "int option"

record workflow_run =
  wr_HeadSHA :: string
  wr_URL :: string

record review =
  rv_ID :: int
  rv_State :: string

record review_request =
  rq_NodeID :: "string option"
  rq_Body :: string
  rq_CommitID :: string
  rq_Event :: string

record merge_options =
  mo_MergeMethod :: string
  mo_CommitTitle :: string

record merge_result =
  mr_Merged :: "bool option"
  mr_Message :: string

definition GetMerged :: "merge_result \<Rightarrow> bool" where
  "GetMerged r = (case mr_Merged r of None \<Rightarrow> False | Some b \<Rightarrow> b)"

text \<open>A function either returns or panics (a slice read out of range).\<close>

datatype 'a outcome = Return 'a | Panic

subsection \<open>Choosing the active pull request\<close>

fun chooseActivePr_range ::
  "pull_request list \<Rightarrow> pull_request option \<Rightarrow> pull_request option" where
  "chooseActivePr_range [] activePr = activePr"
| "chooseActivePr_range (pr # prs) activePr =
     chooseActivePr_range prs (if GetMergeable pr then Some pr else activePr)"

text \<open>
  After the loop, \<open>activePr == nil\<close> selects \<open>renovatePrs[0]\<close>, which panics on an
  empty slice.
\<close>

definition chooseActivePr :: "pull_request list \<Rightarrow> pull_request outcome" where
  "chooseActivePr renovatePrs =
     (case chooseActivePr_range renovatePrs None of
        Some activePr \<Rightarrow> Return activePr
      | None \<Rightarrow> (case renovatePrs of [] \<Rightarrow> Panic | pr # prs \<Rightarrow> Return pr))"

subsection \<open>Combining the required checks, the statuses and the check runs\<close>

record runResult =
  rr_appId :: "int option"
  rr_context :: string
  rr_conclusion :: string

text \<open>\<open>fmt.Sprintf("%d", i)\<close>: the decimal digits of \<open>i\<close>, with a minus sign.\<close>

fun decimal :: "nat \<Rightarrow> string" where
  "decimal n =
     (if n < 10 then [''0123456789'' ! n]
      else decimal (n div 10) @ [''0123456789'' ! (n mod 10)])"

definition Sprintf_d :: "int \<Rightarrow> string" where
  "Sprintf_d i = (if i < 0 then CHR ''-'' # decimal (nat (- i)) else decimal (nat i))"

text \<open>
  The key of a check: its context, and \<open>fmt.Sprintf("%s/%d", context, *appId)\<close> when
  the application id is not nil.
\<close>

definition check_key :: "string \<Rightarrow> int option \<Rightarrow> string" where
  "check_key c a = (case a of None \<Rightarrow> c | Some i \<Rightarrow> c @ ''/'' @ Sprintf_d i)"

text \<open>
  \<open>checkResults\<close> is a Go \<open>map[string]string\<close>: an association list with one entry
  for each key. \<open>checkResults[k] = v\<close> is \<open>AList.update k v\<close>, the test
  \<open>_, ok := checkResults[k]\<close> is \<open>map_of checkResults k \<noteq> None\<close>. The three loops
  of \<open>checkStatusChecks\<close> over the required checks, the statuses and the check runs:
\<close>

definition required_step :: "(string \<times> string) list \<Rightarrow> required_check \<Rightarrow> (string \<times> string) list" where
  "required_step checkResults c =
     AList.update (check_key (rc_Context c) (rc_AppID c)) ''missing'' checkResults"

definition status_step :: "(string \<times> string) list \<Rightarrow> runResult \<Rightarrow> (string \<times> string) list" where
  "status_step checkResults check =
     (let checkResults1 = AList.update (rr_context check) (rr_conclusion check) checkResults
      in if map_of checkResults1 (rr_context check) \<noteq> None
         then AList.update (rr_context check) (rr_conclusion check) checkResults1
         else checkResults1)"

definition checkrun_step :: "(string \<times> string) list \<Rightarrow> runResult \<Rightarrow> (string \<times> string) list" where
  "checkrun_step checkResults check =
     (let ctx = check_key (rr_context check) (rr_appId check)
      in if map_of checkResults ctx \<noteq> None
         then AList.update ctx (rr_conclusion check) checkResults
         else checkResults)"

definition combine_checks ::
  "required_check list \<Rightarrow> runResult list \<Rightarrow> runResult list \<Rightarrow> (string \<times> string) list" where
  "combine_checks requiredChecks statuses checks =
     foldl checkrun_step (foldl status_step (foldl required_step [] requiredChecks) statuses) checks"

text \<open>
  The last loop of \<open>checkStatusChecks\<close> (the \<open>switch\<close> on each conclusion) and the
  three returns after it. Go ranges over a map in no fixed order; the two flags do not
  depend on it.
\<close>

definition conclusion_step :: "bool \<times> bool \<Rightarrow> string \<times> string \<Rightarrow> bool \<times> bool" where
  "conclusion_step flags entry =
     (case flags of (failedCheck, missingCheck) \<Rightarrow>
        if snd entry = ''success'' then (failedCheck, missingCheck)
        else if snd entry = ''failed'' then (True, missingCheck)
        else (failedCheck, True))"

definition check_verdict :: "(string \<times> string) list \<Rightarrow> error option" where
  "check_verdict checkResults =
     (case foldl conclusion_step (False, False) checkResults of
        (failedCheck, missingCheck) \<Rightarrow>
          if failedCheck then Some ErrFailedCheck
          else if missingCheck \<or> length checkResults = 0 then Some ErrMissingCheck
          else None)"

subsection \<open>The remote platform\<close>

text \<open>
  The methods of the go-github client the program calls, for one repository (the
  arguments \<open>ctx\<close>, \<open>org\<close> and \<open>repo\<close> are the same in every call and left out).
  A method of go-github returns either an error or a value, never both; a listing also
  returns \<open>res.NextPage\<close>. Each call reads and changes the remote, the world \<open>'w\<close>.
  \<open>NewRequest\<close> only builds a request. \<open>Sleep\<close> is what the remote does while the
  program sleeps for two minutes.
\<close>

record http_request =
  hr_Method :: string
  hr_URL :: string

record 'w client =
  PullRequests_List :: "string \<Rightarrow> int \<Rightarrow> 'w \<Rightarrow> (error + pull_request list \<times> int) \<times> 'w"
  PullRequests_ListReviews :: "int \<Rightarrow> int \<Rightarrow> 'w \<Rightarrow> (error + review list \<times> int) \<times> 'w"
  PullRequests_CreateReview :: "int \<Rightarrow> review_request \<Rightarrow> 'w \<Rightarrow> (error + review) \<times> 'w"
  PullRequests_SubmitReview :: "int \<Rightarrow> int \<Rightarrow> review_request \<Rightarrow> 'w \<Rightarrow> (error + review) \<times> 'w"
  PullRequests_Get :: "int \<Rightarrow> 'w \<Rightarrow> (error + pull_request) \<times> 'w"
  PullRequests_Merge :: "int \<Rightarrow> string \<Rightarrow> merge_options \<Rightarrow> 'w \<Rightarrow> (error + merge_result) \<times> 'w"
  Repositories_GetRequiredStatusChecks :: "string \<Rightarrow> 'w \<Rightarrow> (error + required_check list) \<times> 'w"
  Repositories_GetCombinedStatus :: "string \<Rightarrow> int \<Rightarrow> 'w \<Rightarrow> (error + repo_status list \<times> int) \<times> 'w"
  Checks_ListCheckRunsForRef :: "string \<Rightarrow> int \<Rightarrow> 'w \<Rightarrow> (error + check_run list \<times> int) \<times> 'w"
  Actions_ListRepositoryWorkflowRuns :: "string \<Rightarrow> int \<Rightarrow> 'w \<Rightarrow> (error + workflow_run list \<times> int) \<times> 'w"
  NewRequest :: "string \<Rightarrow> string \<Rightarrow> error + http_request"
  Do :: "http_request \<Rightarrow> 'w \<Rightarrow> error option \<times> 'w"
  Sleep :: "'w \<Rightarrow> 'w"

subsection \<open>ListGenerator\<close>

text \<open>
  \<open>ListGenerator\<close> holds a \<open>Retrieve\<close> without the page and a pointer \<open>pg\<close> to a
  \<open>PagedListGenerator\<close>, nil until \<open>init\<close> has run. It is given here, as are the
  loops of package renovatepr below, over the copy of \<open>Next\<close> that has the test after
  \<open>getNextPage\<close>; the two copies differ only where \<open>Next\<close> itself fetches an empty
  last page.
\<close>

type_synonym ('w, 'a) list_retrieve = "int \<Rightarrow> 'w \<Rightarrow> ('a list \<times> int \<times> error option) \<times> 'w"

definition ListGenerator_init ::
  "(unit, 'a) PagedListGenerator option \<Rightarrow> (unit, 'a) PagedListGenerator" where
  "ListGenerator_init pg = (case pg of Some g \<Rightarrow> g | None \<Rightarrow> new_generator)"

definition ListGenerator_Retrieve :: "('w, 'a) list_retrieve \<Rightarrow> ('w, unit, 'a) retrieve" where
  "ListGenerator_Retrieve Retrieve opts w =
     (case Retrieve opts w of
        ((v, res, err), w') \<Rightarrow>
          (\<lparr>r_page = None, r_items = v, r_NextPage = res, r_err = err\<rparr>, w'))"

definition ListGenerator_HasNext ::
  "('w, 'a) list_retrieve \<Rightarrow> (unit, 'a) PagedListGenerator option \<Rightarrow> 'w
     \<Rightarrow> bool \<times> (unit, 'a) PagedListGenerator option \<times> 'w" where
  "ListGenerator_HasNext Retrieve pg w =
     (case HasNext (ListGenerator_Retrieve Retrieve) (ListGenerator_init pg) w of
        (b, g, w') \<Rightarrow> (b, Some g, w'))"

definition ListGenerator_Next ::
  "('w, 'a) list_retrieve \<Rightarrow> (unit, 'a) PagedListGenerator option \<Rightarrow> 'w
     \<Rightarrow> (unit, 'a) next_result \<times> (unit, 'a) PagedListGenerator option \<times> 'w" where
  "ListGenerator_Next Retrieve pg w =
     (case Next (ListGenerator_Retrieve Retrieve) (ListGenerator_init pg) w of
        (Item p v, g, w') \<Rightarrow> (Item None v, Some g, w')
      | (r, g, w') \<Rightarrow> (r, Some g, w'))"

subsection \<open>The loop over a generator\<close>

text \<open>
  Every loop of the package over a generator is
  \<^verbatim>\<open>for g.HasNext() { x, err := g.Next(); if err != nil { return ..., f(err) }; body }\<close>
  where the body updates the local variables \<open>acc\<close> of the loop or returns an error.
  The loop need not end (a remote can announce a next page for ever): the function is
  partial, and \<open>None\<close> is the run that does not return.
\<close>

partial_function (option) for_HasNext ::
  "('g \<Rightarrow> 'w \<Rightarrow> bool \<times> 'g \<times> 'w) \<Rightarrow> ('g \<Rightarrow> 'w \<Rightarrow> ('p, 'a) next_result \<times> 'g \<times> 'w)
     \<Rightarrow> (error \<Rightarrow> error) \<Rightarrow> ('acc \<Rightarrow> 'a \<Rightarrow> 'w \<Rightarrow> (error + 'acc) \<times> 'w)
     \<Rightarrow> 'g \<Rightarrow> 'acc \<Rightarrow> 'w \<Rightarrow> ((error + 'acc) outcome \<times> 'w) option" where
  "for_HasNext hasNext next on_err body g acc w =
     (case hasNext g w of
        (b, g1, w1) \<Rightarrow>
          if \<not> b then Some (Return (Inr acc), w1)
          else
            (case next g1 w1 of
               (IndexOutOfRange, g2, w2) \<Rightarrow> Some (Panic, w2)
             | (Failed err, g2, w2) \<Rightarrow> Some (Return (Inl (on_err err)), w2)
             | (Item p x, g2, w2) \<Rightarrow>
                 (case body acc x w2 of
                    (Inl e, w3) \<Rightarrow> Some (Return (Inl e), w3)
                  | (Inr acc', w3) \<Rightarrow> for_HasNext hasNext next on_err body g2 acc' w3)))"

text \<open>Sequencing: a run that does not return or panics ends the caller as well.\<close>

definition and_then ::
  "('a outcome \<times> 'w) option \<Rightarrow> ('a \<Rightarrow> 'w \<Rightarrow> ('b outcome \<times> 'w) option)
     \<Rightarrow> ('b outcome \<times> 'w) option" where
  "and_then m f =
     (case m of
        None \<Rightarrow> None
      | Some (Panic, w) \<Rightarrow> Some (Panic, w)
      | Some (Return a, w) \<Rightarrow> f a w)"

subsection \<open>checkStatuses, checkCheckRuns and checkStatusChecks\<close>

text \<open>
  The closures handed to the generators return \<open>nil, nil, res, err\<close> when the client
  returns an error, and the page with its items otherwise. The parameter \<open>count\<close> of
  \<open>checkStatuses\<close> is not read by it and is left out.
\<close>

definition checkStatuses ::
  "'w client \<Rightarrow> pull_request \<Rightarrow> 'w \<Rightarrow> ((error + runResult list) outcome \<times> 'w) option" where
  "checkStatuses cl activePr w =
     (let Retrieve = (\<lambda>opts w.
            case Repositories_GetCombinedStatus cl (pr_HeadSHA activePr) opts w of
              (Inl err, w') \<Rightarrow> (\<lparr>r_page = None, r_items = [], r_NextPage = 0, r_err = Some err\<rparr>, w')
            | (Inr (pg, res), w') \<Rightarrow> (\<lparr>r_page = Some pg, r_items = pg, r_NextPage = res, r_err = None\<rparr>, w'))
      in for_HasNext (HasNext Retrieve) (Next Retrieve)
           (\<lambda>err. Wrapped ''can't list workflows: %v/%v %v %v %v'' err)
           (\<lambda>results status w.
              (Inr (results @ [\<lparr>rr_appId = None, rr_context = st_Context status,
                                rr_conclusion = st_State status\<rparr>]), w))
           new_generator [] w)"

definition checkCheckRuns ::
  "'w client \<Rightarrow> pull_request \<Rightarrow> 'w \<Rightarrow> ((error + runResult list) outcome \<times> 'w) option" where
  "checkCheckRuns cl activePr w =
     (let Retrieve = (\<lambda>opts w.
            case Checks_ListCheckRunsForRef cl (pr_HeadSHA activePr) opts w of
              (Inl err, w') \<Rightarrow> (\<lparr>r_page = None, r_items = [], r_NextPage = 0, r_err = Some err\<rparr>, w')
            | (Inr (pg, res), w') \<Rightarrow> (\<lparr>r_page = Some pg, r_items = pg, r_NextPage = res, r_err = None\<rparr>, w'))
      in for_HasNext (HasNext Retrieve) (Next Retrieve)
           (\<lambda>err. Wrapped ''can't list check runs: %v/%v %v %v %v'' err)
           (\<lambda>results status w.
              (let conclusion = cr_Conclusion status;
                   conclusion = (if conclusion = [] then cr_Status status else conclusion)
               in (Inr (results @ [\<lparr>rr_appId = cr_AppID status, rr_context = cr_Name status,
                                     rr_conclusion = conclusion\<rparr>]), w)))
           new_generator [] w)"

definition checkStatusChecks ::
  "'w client \<Rightarrow> string \<Rightarrow> pull_request \<Rightarrow> 'w \<Rightarrow> (error option outcome \<times> 'w) option" where
  "checkStatusChecks cl base activePr w =
     (case Repositories_GetRequiredStatusChecks cl base w of
        (Inl err, w1) \<Rightarrow> Some (Return (Some err), w1)
      | (Inr requiredChecks, w1) \<Rightarrow>
          and_then (checkStatuses cl activePr w1) (\<lambda>r w2.
            case r of
              Inl err \<Rightarrow> Some (Return (Some err), w2)
            | Inr statuses \<Rightarrow>
                and_then (checkCheckRuns cl activePr w2) (\<lambda>r w3.
                  case r of
                    Inl err \<Rightarrow> Some (Return (Some err), w3)
                  | Inr checks \<Rightarrow>
                      Some (Return (check_verdict
                              (combine_checks requiredChecks statuses checks)), w3))))"

subsection \<open>approveWorkflowRuns, approvePr and mergePr\<close>

definition approveWorkflowRuns ::
  "'w client \<Rightarrow> pull_request \<Rightarrow> 'w \<Rightarrow> (error option outcome \<times> 'w) option" where
  "approveWorkflowRuns cl activePr w =
     (let Retrieve = (\<lambda>opts w.
            case Actions_ListRepositoryWorkflowRuns cl (pr_HeadRef activePr) opts w of
              (Inl err, w') \<Rightarrow> (\<lparr>r_page = None, r_items = [], r_NextPage = 0, r_err = Some err\<rparr>, w')
            | (Inr (r, res), w') \<Rightarrow> (\<lparr>r_page = Some r, r_items = r, r_NextPage = res, r_err = None\<rparr>, w'))
      in and_then
           (for_HasNext (HasNext Retrieve) (Next Retrieve) (\<lambda>err. err)
              (\<lambda>u r w.
                 if wr_HeadSHA r \<noteq> pr_HeadSHA activePr then (Inr (), w)
                 else
                   (case NewRequest cl ''POST'' (wr_URL r @ ''/approve'') of
                      Inl err \<Rightarrow> (Inl err, w)
                    | Inr req \<Rightarrow>
                        (case Do cl req w of
                           (Some err, w') \<Rightarrow> (Inl (Wrapped ''Can't approve workflow: %v'' err), w')
                         | (None, w') \<Rightarrow> (Inr (), w'))))
              new_generator () w)
           (\<lambda>r w'. case r of Inl err \<Rightarrow> Some (Return (Some err), w')
                            | Inr u \<Rightarrow> Some (Return None, w')))"

text \<open>
  In \<open>approvePr\<close> the results of \<open>SubmitReview\<close> are not assigned: the test
  \<open>err != nil\<close> after it reads the \<open>err\<close> of \<open>CreateReview\<close>, which is nil there.
\<close>

definition approvePr ::
  "'w client \<Rightarrow> pull_request \<Rightarrow> 'w \<Rightarrow> (error option outcome \<times> 'w) option" where
  "approvePr cl activePr w =
     (let Retrieve = (\<lambda>opts w.
            case PullRequests_ListReviews cl (pr_Number activePr) opts w of
              (Inl err, w') \<Rightarrow> (([], 0, Some err), w')
            | (Inr (v, res), w') \<Rightarrow> ((v, res, None), w'))
      in and_then
           (for_HasNext (ListGenerator_HasNext Retrieve) (ListGenerator_Next Retrieve)
              (\<lambda>err. Wrapped ''Can't get review: %v'' err)
              (\<lambda>approved review w.
                 (Inr (if rv_State review = ''APPROVED'' then True else approved), w))
              None False w)
           (\<lambda>r w1.
              case r of
                Inl err \<Rightarrow> Some (Return (Some err), w1)
              | Inr approved \<Rightarrow>
                  if approved then Some (Return None, w1)
                  else
                    (case PullRequests_CreateReview cl (pr_Number activePr)
                            \<lparr>rq_NodeID = pr_NodeID activePr, rq_Body = ''LGTM'',
                             rq_CommitID = pr_HeadSHA activePr, rq_Event = ''APPROVE''\<rparr> w1 of
                       (Inl err, w2) \<Rightarrow>
                         Some (Return (Some (Wrapped ''can't create LGTM review: %v/%v %v %v %v'' err)), w2)
                     | (Inr lgtmReview, w2) \<Rightarrow>
                         (let err = None
                          in case PullRequests_SubmitReview cl (pr_Number activePr) (rv_ID lgtmReview)
                                    \<lparr>rq_NodeID = pr_NodeID activePr, rq_Body = ''LGTM'',
                                     rq_CommitID = pr_HeadSHA activePr, rq_Event = ''APPROVE''\<rparr> w2 of
                               (submitted, w3) \<Rightarrow>
                                 (case err of
                                    Some e \<Rightarrow>
                                      Some (Return (Some (Wrapped ''can't submit LGTM review: %v/%v %v %v %v'' e)), w3)
                                  | None \<Rightarrow> Some (Return None, w3))))))"

text \<open>
  \<open>mergePr\<close>. The two results \<open>mergeResult\<close> and \<open>err\<close> of \<open>Merge\<close> are tested
  in the order of the source.
\<close>

definition mergePr :: "'w client \<Rightarrow> pull_request \<Rightarrow> 'w \<Rightarrow> error option \<times> 'w" where
  "mergePr cl activePr0 w =
     (case PullRequests_Get cl (pr_Number activePr0) w of
        (Inl err, w1) \<Rightarrow> (Some err, w1)
      | (Inr activePr, w1) \<Rightarrow>
          if \<not> GetRebaseable activePr then
            (Some (Errorf ''unable to merge %v via squash method, it is not rebaseable''
                     (pr_Number activePr) []), w1)
          else
            (case PullRequests_Merge cl (pr_Number activePr) (pr_State activePr)
                    \<lparr>mo_MergeMethod = ''squash'', mo_CommitTitle = pr_Title activePr\<rparr> w1 of
               (merged, w2) \<Rightarrow>
                 (let mergeResult = (case merged of Inl e \<Rightarrow> None | Inr r \<Rightarrow> Some r);
                      err = (case merged of Inl e \<Rightarrow> Some e | Inr r \<Rightarrow> None)
                  in case mergeResult of
                       Some r \<Rightarrow>
                         if GetMerged r then (None, w2)
                         else (Some (Errorf ''unable to merge %v via squash method: %v''
                                       (pr_Number activePr) (mr_Message r)), w2)
                     | None \<Rightarrow>
                         (case err of
                            Some e \<Rightarrow> (Some (Wrapped ''unable to merge %v via squash method: %v'' e), w2)
                          | None \<Rightarrow> (None, w2)))))"

subsection \<open>mergeStep and MergePRs\<close>

text \<open>
  The first loop of \<open>mergeStep\<close>: the open pull requests of the base branch, in
  the order the platform lists them, filtered to those of \<open>renovate-bot\<close>.
\<close>

definition listRenovatePrs ::
  "'w client \<Rightarrow> string \<Rightarrow> 'w \<Rightarrow> ((error + pull_request list) outcome \<times> 'w) option" where
  "listRenovatePrs cl base w =
     (let Retrieve = (\<lambda>opts w.
            case PullRequests_List cl base opts w of
              (Inl err, w') \<Rightarrow> (([], 0, Some err), w')
            | (Inr (v, res), w') \<Rightarrow> ((v, res, None), w'))
      in for_HasNext (ListGenerator_HasNext Retrieve) (ListGenerator_Next Retrieve)
           (\<lambda>err. err)
           (\<lambda>renovatePrs pr w.
              (Inr (if pr_Login pr = ''renovate-bot'' then renovatePrs @ [pr]
                    else renovatePrs), w))
           None [] w)"

definition mergeStep ::
  "'w client \<Rightarrow> string \<Rightarrow> 'w \<Rightarrow> ((bool \<times> error option) outcome \<times> 'w) option" where
  "mergeStep cl base w =
     and_then (listRenovatePrs cl base w) (\<lambda>r w1.
       case r of
         Inl err \<Rightarrow> Some (Return (False, Some err), w1)
       | Inr renovatePrs \<Rightarrow>
           if length renovatePrs = 0 then Some (Return (False, None), w1)
           else
             and_then (Some (chooseActivePr renovatePrs, w1)) (\<lambda>activePr w1.
             and_then (approveWorkflowRuns cl activePr w1) (\<lambda>err w2.
               if err \<noteq> None then Some (Return (True, err), w2)
               else
                 and_then (checkStatusChecks cl base activePr w2) (\<lambda>err w3.
                   if err = Some ErrMissingCheck then Some (Return (True, err), w3)
                   else if err \<noteq> None then Some (Return (False, err), w3)
                   else
                     and_then (approvePr cl activePr w3) (\<lambda>err w4.
                       if err \<noteq> None then Some (Return (True, err), w4)
                       else
                         (case mergePr cl activePr w4 of
                            (err, w5) \<Rightarrow> Some (Return (True, err), w5)))))))"

text \<open>
  \<open>MergePRs\<close>: the loop \<open>for i := 1; i < 100 && errCount < 10; i++\<close>. The lines it
  logs are kept (those of \<open>mergeStep\<close> are not): they say which iterations ran.
\<close>

datatype log_line =
    Iteration nat
  | No_more_work
  | Error_sleeping error
  | Merged_attempting_another

function MergePRs_loop ::
  "('w \<Rightarrow> ((bool \<times> error option) outcome \<times> 'w) option) \<Rightarrow> ('w \<Rightarrow> 'w)
     \<Rightarrow> nat \<Rightarrow> nat \<Rightarrow> error option \<Rightarrow> log_line list \<Rightarrow> 'w
     \<Rightarrow> (error option outcome \<times> log_line list \<times> 'w) option" where
  "MergePRs_loop step sleep i errCount err lg w =
     (if i < 100 \<and> errCount < 10 then
        (case step w of
           None \<Rightarrow> None
         | Some (Panic, w') \<Rightarrow> Some (Panic, lg @ [Iteration i], w')
         | Some (Return (hasMore, err'), w') \<Rightarrow>
             if \<not> hasMore then Some (Return err', lg @ [Iteration i, No_more_work], w')
             else
               (case err' of
                  Some e \<Rightarrow>
                    MergePRs_loop step sleep (i + 1) (errCount + 1) err'
                      (lg @ [Iteration i, Error_sleeping e]) (sleep w')
                | None \<Rightarrow>
                    MergePRs_loop step sleep (i + 1) 0 err'
                      (lg @ [Iteration i, Merged_attempting_another]) w'))
      else Some (Return err, lg, w))"
  by pat_completeness auto
termination
  by (relation "measure (\<lambda>(step, sleep, i, errCount, err, lg, w). 100 - i)") auto

definition MergePRs ::
  "'w client \<Rightarrow> string \<Rightarrow> 'w \<Rightarrow> (error option outcome \<times> log_line list \<times> 'w) option" where
  "MergePRs cl base w = MergePRs_loop (mergeStep cl base) (Sleep cl) 1 0 None [] w"

declare MergePRs_loop.simps [simp del]




section \<open>Remotes to run the program against\<close>

subsection \<open>Recording the calls\<close>

text \<open>
  A client that behaves as \<open>cl\<close> does and writes down, next to the world of \<open>cl\<close>,
  each call that reaches the platform.
\<close>

datatype api_call =
    Call_List string int
  | Call_ListReviews int int
  | Call_CreateReview int review_request
  | Call_SubmitReview int int review_request
  | Call_Get int
  | Call_Merge int string merge_options
  | Call_GetRequiredStatusChecks string
  | Call_GetCombinedStatus string int
  | Call_ListCheckRunsForRef string int
  | Call_ListRepositoryWorkflowRuns string int
  | Call_Do http_request

definition recorded :: "('w \<Rightarrow> 'r \<times> 'w) \<Rightarrow> api_call \<Rightarrow> 'w \<times> api_call list \<Rightarrow> 'r \<times> 'w \<times> api_call list" where
  "recorded f c wt = (case f (fst wt) of (r, w') \<Rightarrow> (r, w', snd wt @ [c]))"

definition recording :: "'w client \<Rightarrow> ('w \<times> api_call list) client" where
  "recording cl =
     \<lparr>PullRequests_List = (\<lambda>base opts. recorded (PullRequests_List cl base opts) (Call_List base opts)),
      PullRequests_ListReviews =
        (\<lambda>n opts. recorded (PullRequests_ListReviews cl n opts) (Call_ListReviews n opts)),
      PullRequests_CreateReview =
        (\<lambda>n rq. recorded (PullRequests_CreateReview cl n rq) (Call_CreateReview n rq)),
      PullRequests_SubmitReview =
        (\<lambda>n i rq. recorded (PullRequests_SubmitReview cl n i rq) (Call_SubmitReview n i rq)),
      PullRequests_Get = (\<lambda>n. recorded (PullRequests_Get cl n) (Call_Get n)),
      PullRequests_Merge = (\<lambda>n m opts. recorded (PullRequests_Merge cl n m opts) (Call_Merge n m opts)),
      Repositories_GetRequiredStatusChecks =
        (\<lambda>base. recorded (Repositories_GetRequiredStatusChecks cl base)
           (Call_GetRequiredStatusChecks base)),
      Repositories_GetCombinedStatus =
        (\<lambda>sha opts. recorded (Repositories_GetCombinedStatus cl sha opts)
           (Call_GetCombinedStatus sha opts)),
      Checks_ListCheckRunsForRef =
        (\<lambda>sha opts. recorded (Checks_ListCheckRunsForRef cl sha opts)
           (Call_ListCheckRunsForRef sha opts)),
      Actions_ListRepositoryWorkflowRuns =
        (\<lambda>ref opts. recorded (Actions_ListRepositoryWorkflowRuns cl ref opts)
           (Call_ListRepositoryWorkflowRuns ref opts)),
      NewRequest = NewRequest cl,
      Do = (\<lambda>req. recorded (Do cl req) (Call_Do req)),
      Sleep = (\<lambda>wt. (Sleep cl (fst wt), snd wt))\<rparr>"

subsection \<open>A remote with fixed answers\<close>

text \<open>
  A remote that answers each call the same way every time: every listing is one page,
  and nothing the program does changes an answer.
\<close>

record fixed_remote =
  f_prs :: "error + pull_request list"
  f_runs :: "error + workflow_run list"
  f_do :: "error option"
  f_required :: "error + required_check list"
  f_statuses :: "error + repo_status list"
  f_check_runs :: "error + check_run list"
  f_reviews :: "error + review list"
  f_create :: "error + review"
  f_submit :: "error + review"
  f_get :: "error + pull_request"
  f_merge :: "error + merge_result"

definition one_page :: "error + 'a list \<Rightarrow> error + 'a list \<times> int" where
  "one_page r = (case r of Inl e \<Rightarrow> Inl e | Inr xs \<Rightarrow> Inr (xs, 0))"

definition fixed_client :: "fixed_remote \<Rightarrow> unit client" where
  "fixed_client f =
     \<lparr>PullRequests_List = (\<lambda>base opts w. (one_page (f_prs f), w)),
      PullRequests_ListReviews = (\<lambda>n opts w. (one_page (f_reviews f), w)),
      PullRequests_CreateReview = (\<lambda>n rq w. (f_create f, w)),
      PullRequests_SubmitReview = (\<lambda>n i rq w. (f_submit f, w)),
      PullRequests_Get = (\<lambda>n w. (f_get f, w)),
      PullRequests_Merge = (\<lambda>n m opts w. (f_merge f, w)),
      Repositories_GetRequiredStatusChecks = (\<lambda>base w. (f_required f, w)),
      Repositories_GetCombinedStatus = (\<lambda>sha opts w. (one_page (f_statuses f), w)),
      Checks_ListCheckRunsForRef = (\<lambda>sha opts w. (one_page (f_check_runs f), w)),
      Actions_ListRepositoryWorkflowRuns = (\<lambda>ref opts w. (one_page (f_runs f), w)),
      NewRequest = (\<lambda>m url. Inr \<lparr>hr_Method = m, hr_URL = url\<rparr>),
      Do = (\<lambda>req w. (f_do f, w)),
      Sleep = (\<lambda>w. w)\<rparr>"

text \<open>What \<open>checkStatuses\<close> and \<open>checkCheckRuns\<close> make of one status and one check run.\<close>

definition status_result :: "repo_status \<Rightarrow> runResult" where
  "status_result status =
     \<lparr>rr_appId = None, rr_context = st_Context status, rr_conclusion = st_State status\<rparr>"

definition checkrun_result :: "check_run \<Rightarrow> runResult" where
  "checkrun_result status =
     \<lparr>rr_appId = cr_AppID status, rr_context = cr_Name status,
      rr_conclusion = (if cr_Conclusion status = [] then cr_Status status
                       else cr_Conclusion status)\<rparr>"

text \<open>
  A remote where everything is in order: one open pull request of the bot, its one
  required check reported as a success, no review yet, and a merge that goes through.
\<close>

definition bot_pr :: pull_request where
  "bot_pr = \<lparr>pr_Number = 7, pr_Login = ''renovate-bot'', pr_Title = ''Update deps'',
     pr_NodeID = None, pr_HeadSHA = ''abc'', pr_HeadRef = ''renovate/deps'',
     pr_Mergeable = Some True, pr_Rebaseable = Some True, pr_State = ''open''\<rparr>"

definition quiet_remote :: fixed_remote where
  "quiet_remote = \<lparr>f_prs = Inr [bot_pr], f_runs = Inr [], f_do = None,
     f_required = Inr [\<lparr>rc_Context = ''build'', rc_AppID = None\<rparr>],
     f_statuses = Inr [\<lparr>st_Context = ''build'', st_State = ''success''\<rparr>],
     f_check_runs = Inr [], f_reviews = Inr [],
     f_create = Inr \<lparr>rv_ID = 1, rv_State = ''PENDING''\<rparr>,
     f_submit = Inr \<lparr>rv_ID = 1, rv_State = ''APPROVED''\<rparr>,
     f_get = Inr bot_pr,
     f_merge = Inr \<lparr>mr_Merged = Some True, mr_Message = ''Pull Request successfully merged''\<rparr>\<rparr>"

text \<open>Two errors of the platform, as the program passes them on.\<close>

definition bad_gateway :: error where
  "bad_gateway = Remote ''502 Bad Gateway''"

definition not_allowed :: error where
  "not_allowed = Wrapped ''unable to merge %v via squash method: %v'' (Remote ''405 Method Not Allowed'')"

section \<open>Loops over one page\<close>

text \<open>
  What a loop over a generator comes to when the listing is the single page \<open>xs\<close>:
  the body runs on each item in order, until it returns an error.
\<close>

fun run_body :: "('acc \<Rightarrow> 'a \<Rightarrow> 'w \<Rightarrow> (error + 'acc) \<times> 'w) \<Rightarrow> 'acc \<Rightarrow> 'a list \<Rightarrow> 'w \<Rightarrow> (error + 'acc) \<times> 'w" where
  "run_body body acc [] w = (Inr acc, w)"
| "run_body body acc (x # xs) w =
     (case body acc x w of
        (Inl e, w') \<Rightarrow> (Inl e, w')
      | (Inr acc', w') \<Rightarrow> run_body body acc' xs w')"

text \<open>The generator after the fetch of a page \<open>xs\<close> that is the last one, at item \<open>i\<close>.\<close>

definition in_page :: "'p option \<Rightarrow> 'a list \<Rightarrow> nat \<Rightarrow> ('p, 'a) PagedListGenerator" where
  "in_page p xs i =
     \<lparr>index = i, nextPage = 0, page = p, items = xs, opts_Page = 0,
      endOfList = (length xs \<le> i), lastPage = True\<rparr>"

section \<open>The generator against a paged listing\<close>














subsection \<open>Page fetches that fail\<close>

text \<open>
  Claim C4, as the code has it. Let the generator be at a point where the next call has
  to fetch a page, and let that fetch fail with \<open>err\<close>. Then \<open>Next\<close> returns
  \<open>err\<close> to its caller. \<open>HasNext\<close> returns a boolean only: it drops \<open>err\<close> and
  answers \<open>true\<close>, and it leaves the generator with \<open>endOfList\<close>, \<open>lastPage\<close>
  and \<open>nextPage\<close> as they were, holding the page and the items of the failed response.
\<close>

theorem fetch_error_returned_by_Next_dropped_by_HasNext:
  assumes "\<not> endOfList g" and "\<not> lastPage g" and "length (items g) \<le> index g"
    and "Retrieve (nextPage g) w = (res, w')" and "r_err res = Some err"
  shows "Next Retrieve g w =
           (Failed err,
            g\<lparr>index := 0, opts_Page := nextPage g, page := r_page res, items := r_items res\<rparr>,
            w') \<and>
         HasNext Retrieve g w =
           (True,
            g\<lparr>index := 0, opts_Page := nextPage g, page := r_page res, items := r_items res\<rparr>,
            w')"
  using assms by (simp add: Next_def HasNext_def getNextPage_def Let_def)

theorem fetch_error_returned_by_Next_dropped_by_HasNext_witness:
  "Next (flaky_Retrieve (7 :: nat)) new_generator 0 =
     (Failed (Remote ''503 service unavailable''), new_generator, Suc 0) \<and>
   HasNext (flaky_Retrieve (7 :: nat)) new_generator 0 = (True, new_generator, Suc 0)"
proof -
  have "Next (flaky_Retrieve (7 :: nat)) new_generator 0 =
           (Failed (Remote ''503 service unavailable''),
            new_generator\<lparr>index := 0, opts_Page := nextPage new_generator,
              page := None, items := []\<rparr>, Suc 0) \<and>
        HasNext (flaky_Retrieve (7 :: nat)) new_generator 0 =
           (True,
            new_generator\<lparr>index := 0, opts_Page := nextPage new_generator,
              page := None, items := []\<rparr>, Suc 0)"
    using fetch_error_returned_by_Next_dropped_by_HasNext
      [of new_generator "flaky_Retrieve 7" 0
        "\<lparr>r_page = None, r_items = [], r_NextPage = 0,
          r_err = Some (Remote ''503 service unavailable'')\<rparr>"
        "Suc 0" "Remote ''503 service unavailable''"]
    by (simp add: new_generator_def flaky_Retrieve_def)
  then show ?thesis
    by (simp add: new_generator_def)
qed

text \<open>
  Claim C4 as stated fails: against a remote whose first fetch fails and whose second
  succeeds, \<open>HasNext\<close> answers \<open>true\<close> and the following \<open>Next\<close> returns an item;
  the caller never sees the error of the failed fetch.
\<close>

theorem HasNext_hides_fetch_error_counterexample:
  "drive (flaky_Retrieve (7 :: nat)) [CallHasNext, CallNext] new_generator 0
     = [Has True, Got (Item (Some ()) 7)]"
  by (simp add: HasNext_def Next_def getNextPage_def flaky_Retrieve_def new_generator_def
      Let_def)

subsection \<open>An empty first page\<close>

text \<open>
  The copies of \<open>Next\<close> with the test after \<open>getNextPage\<close> answer \<open>EndOfList\<close>
  when they are called first on a listing whose only page is empty.
\<close>

lemma Next_empty_first_page:
  assumes "Retrieve 0 w = (res, w')" and "r_err res = None" and "r_items res = []"
    and "r_NextPage res = 0"
  shows "fst (Next Retrieve new_generator w) = Failed EndOfList"
  using assms by (simp add: Next_def getNextPage_def new_generator_def Let_def)

text \<open>
  Claim C10 at its failing input: the documented copy of \<open>Next\<close>, called first (no
  call of \<open>HasNext\<close> before it) on a listing whose first page is empty and announces no
  further page, reads \<open>g.items[0]\<close> of the empty slice; it does not return
  \<open>EndOfList\<close>.
\<close>

theorem Next_documented_empty_first_page_out_of_range:
  "fst (Next_documented (paged_Retrieve [[] :: nat list]) new_generator ()) = IndexOutOfRange"
  by (simp add: Next_documented_def getNextPage_def paged_Retrieve_def new_generator_def
      Let_def)

section \<open>Loops over a generator\<close>

lemma for_HasNext_stop:
  "hasNext g w = (False, g1, w1) \<Longrightarrow>
   for_HasNext hasNext next on_err body g acc w = Some (Return (Inr acc), w1)"
  by (subst for_HasNext.simps) simp

lemma for_HasNext_item:
  "hasNext g w = (True, g1, w1) \<Longrightarrow> next g1 w1 = (Item p x, g2, w2) \<Longrightarrow>
   for_HasNext hasNext next on_err body g acc w =
     (case body acc x w2 of
        (Inl e, w3) \<Rightarrow> Some (Return (Inl e), w3)
      | (Inr acc', w3) \<Rightarrow> for_HasNext hasNext next on_err body g2 acc' w3)"
  by (subst for_HasNext.simps) simp

lemma for_HasNext_failed:
  "hasNext g w = (True, g1, w1) \<Longrightarrow> next g1 w1 = (Failed err, g2, w2) \<Longrightarrow>
   for_HasNext hasNext next on_err body g acc w = Some (Return (Inl (on_err err)), w2)"
  by (subst for_HasNext.simps) simp

lemma for_HasNext_over_list:
  assumes has: "\<And>i w. i \<le> length xs \<Longrightarrow> hasNext (G i) w = (i < length xs, G i, w)"
    and nxt: "\<And>i w. i < length xs \<Longrightarrow> \<exists>p. next (G i) w = (Item p (xs ! i), G (Suc i), w)"
  shows "i \<le> length xs \<Longrightarrow>
         for_HasNext hasNext next on_err body (G i) acc w =
           (case run_body body acc (drop i xs) w of (r, w') \<Rightarrow> Some (Return r, w'))"
proof (induction "length xs - i" arbitrary: i acc w)
  case 0
  then have "i = length xs" by simp
  then show ?case
    using has [of i w] by (simp add: for_HasNext_stop)
next
  case (Suc n)
  then have lt: "i < length xs" by simp
  from nxt [OF lt, of w] obtain p where
    n: "next (G i) w = (Item p (xs ! i), G (Suc i), w)" by blast
  have h: "hasNext (G i) w = (True, G i, w)"
    using has [of i w] lt by simp
  have d: "drop i xs = xs ! i # drop (Suc i) xs"
    using lt by (simp add: Cons_nth_drop_Suc)
  have unfold: "for_HasNext hasNext next on_err body (G i) acc w =
     (case body acc (xs ! i) w of
        (Inl e, w3) \<Rightarrow> Some (Return (Inl e), w3)
      | (Inr acc', w3) \<Rightarrow> for_HasNext hasNext next on_err body (G (Suc i)) acc' w3)"
    by (subst for_HasNext.simps) (simp add: h n)
  show ?case
  proof (cases "body acc (xs ! i) w")
    case (Pair r w3)
    show ?thesis
    proof (cases r)
      case (Inl e)
      with Pair show ?thesis
        by (simp add: unfold d)
    next
      case (Inr acc')
      have "for_HasNext hasNext next on_err body (G (Suc i)) acc' w3 =
           (case run_body body acc' (drop (Suc i) xs) w3 of (r, w') \<Rightarrow> Some (Return r, w'))"
        using Suc.hyps(1) [of "Suc i" acc' w3] Suc.hyps(2) lt by simp
      with Pair Inr show ?thesis
        by (simp add: unfold d)
    qed
  qed
qed

lemma HasNext_in_page: "HasNext R (in_page p xs i) w = (i < length xs, in_page p xs i, w)"
  by (auto simp: HasNext_def in_page_def getNextPage_def)

lemma Next_in_page:
  "i < length xs \<Longrightarrow> Next R (in_page p xs i) w = (Item p (xs ! i), in_page p xs (Suc i), w)"
  by (auto simp: Next_def in_page_def getNextPage_def Let_def)

lemma HasNext_new_one_page:
  "R 0 w = (\<lparr>r_page = p, r_items = xs, r_NextPage = 0, r_err = None\<rparr>, w0) \<Longrightarrow>
   HasNext R new_generator w = (0 < length xs, in_page p xs 0, w0)"
  by (auto simp: HasNext_def in_page_def getNextPage_def new_generator_def Let_def)

lemma one_page_loop:
  assumes "R 0 w = (\<lparr>r_page = p, r_items = xs, r_NextPage = 0, r_err = None\<rparr>, w0)"
  shows "for_HasNext (HasNext R) (Next R) on_err body new_generator acc w =
           (case run_body body acc xs w0 of (r, w') \<Rightarrow> Some (Return r, w'))"
proof -
  have "for_HasNext (HasNext R) (Next R) on_err body new_generator acc w =
        for_HasNext (HasNext R) (Next R) on_err body (in_page p xs 0) acc w0"
    using HasNext_new_one_page [where R = R, OF assms]
    by (subst (1 2) for_HasNext.simps) (simp add: HasNext_in_page)
  also have "\<dots> = (case run_body body acc (drop 0 xs) w0 of (r, w') \<Rightarrow> Some (Return r, w'))"
    by (rule for_HasNext_over_list [where G = "in_page p xs"])
       (auto simp: HasNext_in_page Next_in_page)
  finally show ?thesis by simp
qed

lemma failing_fetch_loop:
  assumes "R 0 w = (\<lparr>r_page = p, r_items = [], r_NextPage = n, r_err = Some e\<rparr>, w0)"
    and "R 0 w0 = (\<lparr>r_page = p', r_items = ys, r_NextPage = n', r_err = Some e'\<rparr>, w1)"
  shows "for_HasNext (HasNext R) (Next R) on_err body new_generator acc w =
           Some (Return (Inl (on_err e')), w1)"
  by (subst for_HasNext.simps)
     (simp add: HasNext_def Next_def getNextPage_def new_generator_def Let_def assms)

lemma ListGenerator_HasNext_in_page:
  "ListGenerator_HasNext R (Some (in_page None xs i)) w =
     (i < length xs, Some (in_page None xs i), w)"
  by (simp add: ListGenerator_HasNext_def ListGenerator_init_def HasNext_in_page)

lemma ListGenerator_Next_in_page:
  "i < length xs \<Longrightarrow>
   ListGenerator_Next R (Some (in_page None xs i)) w =
     (Item None (xs ! i), Some (in_page None xs (Suc i)), w)"
  by (simp add: ListGenerator_Next_def ListGenerator_init_def Next_in_page)

lemma ListGenerator_HasNext_one_page:
  "R 0 w = ((xs, 0, None), w0) \<Longrightarrow>
   ListGenerator_HasNext R None w = (0 < length xs, Some (in_page None xs 0), w0)"
  by (simp add: ListGenerator_HasNext_def ListGenerator_init_def ListGenerator_Retrieve_def
      HasNext_new_one_page [where R = "ListGenerator_Retrieve R" and p = None and xs = xs and ?w0.0 = w0])

lemma one_page_list_loop:
  assumes "R 0 w = ((xs, 0, None), w0)"
  shows "for_HasNext (ListGenerator_HasNext R) (ListGenerator_Next R) on_err body None acc w =
           (case run_body body acc xs w0 of (r, w') \<Rightarrow> Some (Return r, w'))"
proof -
  have "for_HasNext (ListGenerator_HasNext R) (ListGenerator_Next R) on_err body None acc w =
        for_HasNext (ListGenerator_HasNext R) (ListGenerator_Next R) on_err body
          (Some (in_page None xs 0)) acc w0"
    using ListGenerator_HasNext_one_page [where R = R, OF assms]
    by (subst (1 2) for_HasNext.simps) (simp add: ListGenerator_HasNext_in_page)
  also have "\<dots> = (case run_body body acc (drop 0 xs) w0 of (r, w') \<Rightarrow> Some (Return r, w'))"
    by (rule for_HasNext_over_list [where G = "\<lambda>i. Some (in_page None xs i)"])
       (auto simp: ListGenerator_HasNext_in_page ListGenerator_Next_in_page)
  finally show ?thesis by simp
qed

lemma failing_fetch_list_loop:
  assumes "R 0 w = (([], n, Some e), w0)"
    and "R 0 w0 = ((ys, n', Some e'), w1)"
  shows "for_HasNext (ListGenerator_HasNext R) (ListGenerator_Next R) on_err body None acc w =
           Some (Return (Inl (on_err e')), w1)"
  by (subst for_HasNext.simps)
     (simp add: ListGenerator_HasNext_def ListGenerator_Next_def ListGenerator_init_def
        ListGenerator_Retrieve_def HasNext_def Next_def getNextPage_def new_generator_def
        Let_def assms)

lemma run_body_pure:
  "run_body (\<lambda>acc x w. (Inr (f acc x), w)) acc xs w = (Inr (foldl f acc xs), w)"
  by (induction xs arbitrary: acc) simp_all

lemma foldl_filter_append:
  "foldl (\<lambda>acc x. if P x then acc @ [x] else acc) acc xs = acc @ filter P xs"
  by (induction xs arbitrary: acc) simp_all

lemma foldl_map_append:
  "foldl (\<lambda>acc x. acc @ [f x]) acc xs = acc @ map f xs"
  by (induction xs arbitrary: acc) simp_all

section \<open>The program against a remote with fixed answers\<close>

lemma fixed_client_sel:
  "PullRequests_List (fixed_client f) base opts w = (one_page (f_prs f), w)"
  "PullRequests_ListReviews (fixed_client f) n opts w = (one_page (f_reviews f), w)"
  "PullRequests_CreateReview (fixed_client f) n rq w = (f_create f, w)"
  "PullRequests_SubmitReview (fixed_client f) n i rq w = (f_submit f, w)"
  "PullRequests_Get (fixed_client f) n w = (f_get f, w)"
  "PullRequests_Merge (fixed_client f) n m mo w = (f_merge f, w)"
  "Repositories_GetRequiredStatusChecks (fixed_client f) base w = (f_required f, w)"
  "Repositories_GetCombinedStatus (fixed_client f) sha opts w = (one_page (f_statuses f), w)"
  "Checks_ListCheckRunsForRef (fixed_client f) sha opts w = (one_page (f_check_runs f), w)"
  "Actions_ListRepositoryWorkflowRuns (fixed_client f) ref opts w = (one_page (f_runs f), w)"
  "NewRequest (fixed_client f) m url = Inr \<lparr>hr_Method = m, hr_URL = url\<rparr>"
  "Do (fixed_client f) req w = (f_do f, w)"
  "Sleep (fixed_client f) w = w"
  by (simp_all add: fixed_client_def)

lemma listRenovatePrs_fixed:
  "listRenovatePrs (fixed_client f) base () =
     (case f_prs f of
        Inl e \<Rightarrow> Some (Return (Inl e), ())
      | Inr prs \<Rightarrow> Some (Return (Inr (filter (\<lambda>pr. pr_Login pr = ''renovate-bot'') prs)), ()))"
proof (cases "f_prs f")
  case (Inl e)
  then show ?thesis
    unfolding listRenovatePrs_def Let_def
    by (subst failing_fetch_list_loop [where e = e and e' = e and ?w0.0 = "()" and ?w1.0 = "()"
          and n = 0 and n' = 0 and ys = "[]"])
       (simp_all add: fixed_client_sel one_page_def)
next
  case (Inr prs)
  then show ?thesis
    unfolding listRenovatePrs_def Let_def
    by (subst one_page_list_loop [where xs = prs and ?w0.0 = "()"])
       (simp_all add: fixed_client_sel one_page_def run_body_pure foldl_filter_append)
qed

lemma checkStatuses_fixed:
  "checkStatuses (fixed_client f) pr () =
     (case f_statuses f of
        Inl e \<Rightarrow> Some (Return (Inl (Wrapped ''can't list workflows: %v/%v %v %v %v'' e)), ())
      | Inr sts \<Rightarrow> Some (Return (Inr (map status_result sts)), ()))"
proof (cases "f_statuses f")
  case (Inl e)
  then show ?thesis
    unfolding checkStatuses_def Let_def
    by (subst failing_fetch_loop [where e = e and e' = e and ?w0.0 = "()" and ?w1.0 = "()"
          and n = 0 and n' = 0 and ys = "[]" and p = None and p' = None])
       (simp_all add: fixed_client_sel one_page_def)
next
  case (Inr sts)
  then show ?thesis
    unfolding checkStatuses_def Let_def
    by (subst one_page_loop [where xs = sts and ?w0.0 = "()" and p = "Some sts"])
       (simp_all add: fixed_client_sel one_page_def run_body_pure
          foldl_map_append status_result_def)
qed

lemma checkCheckRuns_fixed:
  "checkCheckRuns (fixed_client f) pr () =
     (case f_check_runs f of
        Inl e \<Rightarrow> Some (Return (Inl (Wrapped ''can't list check runs: %v/%v %v %v %v'' e)), ())
      | Inr runs \<Rightarrow> Some (Return (Inr (map checkrun_result runs)), ()))"
proof (cases "f_check_runs f")
  case (Inl e)
  then show ?thesis
    unfolding checkCheckRuns_def Let_def
    by (subst failing_fetch_loop [where e = e and e' = e and ?w0.0 = "()" and ?w1.0 = "()"
          and n = 0 and n' = 0 and ys = "[]" and p = None and p' = None])
       (simp_all add: fixed_client_sel one_page_def)
next
  case (Inr runs)
  then show ?thesis
    unfolding checkCheckRuns_def Let_def
    by (subst one_page_loop [where xs = runs and ?w0.0 = "()" and p = "Some runs"])
       (simp_all add: fixed_client_sel one_page_def run_body_pure
          foldl_map_append checkrun_result_def)
qed

lemma checkStatusChecks_fixed:
  "checkStatusChecks (fixed_client f) base pr () =
     (case f_required f of
        Inl e \<Rightarrow> Some (Return (Some e), ())
      | Inr rc \<Rightarrow>
         (case f_statuses f of
            Inl e \<Rightarrow> Some (Return (Some (Wrapped ''can't list workflows: %v/%v %v %v %v'' e)), ())
          | Inr sts \<Rightarrow>
             (case f_check_runs f of
                Inl e \<Rightarrow> Some (Return (Some (Wrapped ''can't list check runs: %v/%v %v %v %v'' e)), ())
              | Inr runs \<Rightarrow>
                  Some (Return (check_verdict (combine_checks rc (map status_result sts)
                     (map checkrun_result runs))), ()))))"
  by (simp add: checkStatusChecks_def checkStatuses_fixed checkCheckRuns_fixed
      fixed_client_sel and_then_def split: sum.splits)

lemma run_body_approve:
  "run_body (\<lambda>u r w. if P r then (Inr (), w) else (case d of Some err \<Rightarrow> (Inl (g err), w) | None \<Rightarrow> (Inr (), w))) () runs (w :: unit) =
     (case d of
        Some err \<Rightarrow> if \<exists>r \<in> set runs. \<not> P r then (Inl (g err), w) else (Inr (), w)
      | None \<Rightarrow> (Inr (), w))"
  by (induction runs) (auto split: option.splits)

lemma approve_body_fixed:
  "(\<lambda>u r w.
      if wr_HeadSHA r \<noteq> pr_HeadSHA pr then (Inr (), w)
      else
        (case NewRequest (fixed_client f) ''POST'' (wr_URL r @ ''/approve'') of
           Inl err \<Rightarrow> (Inl err, w)
         | Inr req \<Rightarrow>
             (case Do (fixed_client f) req w of
                (Some err, w') \<Rightarrow> (Inl (Wrapped ''Can't approve workflow: %v'' err), w')
              | (None, w') \<Rightarrow> (Inr (), w'))))
   = (\<lambda>u r w.
      if wr_HeadSHA r \<noteq> pr_HeadSHA pr then (Inr (), w)
      else (case f_do f of
              Some err \<Rightarrow> (Inl (Wrapped ''Can't approve workflow: %v'' err), w)
            | None \<Rightarrow> (Inr (), w)))"
  by (intro ext) (simp add: fixed_client_sel split: option.splits)

lemma approveWorkflowRuns_fixed:
  "approveWorkflowRuns (fixed_client f) pr () =
     (case f_runs f of
        Inl e \<Rightarrow> Some (Return (Some e), ())
      | Inr runs \<Rightarrow>
          (case f_do f of
             Some err \<Rightarrow>
               if \<exists>r \<in> set runs. wr_HeadSHA r = pr_HeadSHA pr
               then Some (Return (Some (Wrapped ''Can't approve workflow: %v'' err)), ())
               else Some (Return None, ())
           | None \<Rightarrow> Some (Return None, ())))"
proof (cases "f_runs f")
  case (Inl e)
  then show ?thesis
    unfolding approveWorkflowRuns_def Let_def
    by (subst failing_fetch_loop [where e = e and e' = e and ?w0.0 = "()" and ?w1.0 = "()"
          and n = 0 and n' = 0 and ys = "[]" and p = None and p' = None])
       (simp_all add: fixed_client_sel one_page_def and_then_def)
next
  case (Inr runs)
  then show ?thesis
    unfolding approveWorkflowRuns_def Let_def approve_body_fixed
    by (subst one_page_loop [where xs = runs and ?w0.0 = "()" and p = "Some runs"])
       (simp_all add: fixed_client_sel one_page_def and_then_def run_body_approve
          split: option.splits)
qed

lemma foldl_approved:
  "foldl (\<lambda>approved review. if P review then True else approved) a rvs
     = (a \<or> (\<exists>rv \<in> set rvs. P rv))"
  by (induction rvs arbitrary: a) auto

lemma approvePr_fixed:
  "approvePr (fixed_client f) pr () =
     (case f_reviews f of
        Inl e \<Rightarrow> Some (Return (Some (Wrapped ''Can't get review: %v'' e)), ())
      | Inr rvs \<Rightarrow>
          if \<exists>rv \<in> set rvs. rv_State rv = ''APPROVED'' then Some (Return None, ())
          else
            (case f_create f of
               Inl e \<Rightarrow>
                 Some (Return (Some (Wrapped ''can't create LGTM review: %v/%v %v %v %v'' e)), ())
             | Inr r \<Rightarrow> Some (Return None, ())))"
proof (cases "f_reviews f")
  case (Inl e)
  then show ?thesis
    unfolding approvePr_def Let_def
    by (subst failing_fetch_list_loop [where e = e and e' = e and ?w0.0 = "()" and ?w1.0 = "()"
          and n = 0 and n' = 0 and ys = "[]"])
       (simp_all add: fixed_client_sel one_page_def and_then_def)
next
  case (Inr rvs)
  then show ?thesis
    unfolding approvePr_def Let_def
    by (subst one_page_list_loop [where xs = rvs and ?w0.0 = "()"])
       (simp_all add: fixed_client_sel one_page_def and_then_def run_body_pure foldl_approved
          split: sum.splits)
qed

lemmas fixed = listRenovatePrs_fixed approveWorkflowRuns_fixed checkStatusChecks_fixed
  approvePr_fixed fixed_client_sel

lemmas quiet = quiet_remote_def bot_pr_def chooseActivePr_def GetMergeable_def mergePr_def
  GetRebaseable_def GetMerged_def check_verdict_def combine_checks_def required_step_def
  status_step_def checkrun_step_def status_result_def checkrun_result_def check_key_def
  conclusion_step_def and_then_def

section \<open>The verdict on the checks\<close>

lemma checkrun_step_keys: "fst ` set (checkrun_step m c) = fst ` set m"
  by (auto simp: checkrun_step_def Let_def dom_update map_of_eq_None_iff)

lemma checkrun_pass_keys: "fst ` set (foldl checkrun_step m cs) = fst ` set m"
  by (induction cs arbitrary: m) (simp_all add: checkrun_step_keys)

lemma status_step_keys: "fst ` set (status_step m c) = insert (rr_context c) (fst ` set m)"
  by (auto simp: status_step_def Let_def dom_update)

lemma status_pass_keys:
  "fst ` set (foldl status_step m cs) = fst ` set m \<union> rr_context ` set cs"
  by (induction cs arbitrary: m) (auto simp: status_step_keys)

text \<open>
  Claim C1 at its failing input. The base branch requires the one check \<open>build\<close>; the
  head commit has the statuses \<open>build\<close> (success) and \<open>lint\<close> (pending), and no
  check run. The mapping seeded from the required checks has the key \<open>build\<close> only;
  after the two passes it has the keys \<open>build\<close> and \<open>lint\<close>: the status whose
  context was not a key has added an entry, and \<open>checkStatusChecks\<close> answers
  \<open>ErrMissingCheck\<close> for a pull request whose only required check has succeeded.
\<close>

theorem status_of_other_context_adds_entry:
  "map fst (foldl required_step [] [\<lparr>rc_Context = ''build'', rc_AppID = None\<rparr>]) = [''build''] \<and>
   combine_checks [\<lparr>rc_Context = ''build'', rc_AppID = None\<rparr>]
     [\<lparr>rr_appId = None, rr_context = ''build'', rr_conclusion = ''success''\<rparr>,
      \<lparr>rr_appId = None, rr_context = ''lint'', rr_conclusion = ''pending''\<rparr>] []
     = [(''build'', ''success''), (''lint'', ''pending'')] \<and>
   checkStatusChecks
     (fixed_client (quiet_remote\<lparr>f_statuses :=
        Inr [\<lparr>st_Context = ''build'', st_State = ''success''\<rparr>,
             \<lparr>st_Context = ''lint'', st_State = ''pending''\<rparr>]\<rparr>)) ''main'' bot_pr ()
     = Some (Return (Some ErrMissingCheck), ())"
  by (simp add: fixed quiet)

lemma conclusion_flags:
  "foldl conclusion_step (f, m) xs =
     (f \<or> ''failed'' \<in> snd ` set xs,
      m \<or> (\<exists>v \<in> snd ` set xs. v \<noteq> ''success'' \<and> v \<noteq> ''failed''))"
  by (induction xs arbitrary: f m) (auto simp: conclusion_step_def)

lemma check_verdict_table:
  "check_verdict m =
     (if ''failed'' \<in> snd ` set m then Some ErrFailedCheck
      else if (\<exists>v \<in> snd ` set m. v \<noteq> ''success'') \<or> m = [] then Some ErrMissingCheck
      else None)"
  unfolding check_verdict_def conclusion_flags
  by (cases "''failed'' \<in> snd ` set m") (auto, force+)

lemma checkStatusChecks_verdict:
  assumes "Repositories_GetRequiredStatusChecks cl base w = (Inr requiredChecks, w1)"
    and "checkStatuses cl activePr w1 = Some (Return (Inr statuses), w2)"
    and "checkCheckRuns cl activePr w2 = Some (Return (Inr checks), w3)"
  shows "checkStatusChecks cl base activePr w =
           Some (Return (check_verdict (combine_checks requiredChecks statuses checks)), w3)"
  using assms by (simp add: checkStatusChecks_def and_then_def)

text \<open>
  Claim C2. When the three fetches of \<open>checkStatusChecks\<close> succeed, it classifies
  its final mapping \<open>checkResults\<close> so: if any mapped conclusion is \<open>failed\<close> the
  result is \<open>ErrFailedCheck\<close>; otherwise, if any mapped conclusion is not
  \<open>success\<close> or the mapping is empty, the result is \<open>ErrMissingCheck\<close>; otherwise
  the result is nil (ready).
\<close>

theorem checkStatusChecks_classifies:
  assumes "Repositories_GetRequiredStatusChecks cl base w = (Inr requiredChecks, w1)"
    and "checkStatuses cl activePr w1 = Some (Return (Inr statuses), w2)"
    and "checkCheckRuns cl activePr w2 = Some (Return (Inr checks), w3)"
    and "checkResults = combine_checks requiredChecks statuses checks"
  shows "checkStatusChecks cl base activePr w =
           Some (Return
             (if ''failed'' \<in> snd ` set checkResults then Some ErrFailedCheck
              else if (\<exists>conclusion \<in> snd ` set checkResults. conclusion \<noteq> ''success'')
                      \<or> checkResults = []
                   then Some ErrMissingCheck
              else None), w3)"
  using checkStatusChecks_verdict [OF assms(1-3)] assms(4)
  by (simp only: check_verdict_table)

theorem checkStatusChecks_classifies_witness:
  "checkStatusChecks (fixed_client quiet_remote) ''main'' bot_pr () = Some (Return None, ()) \<and>
   checkStatusChecks (fixed_client (quiet_remote\<lparr>f_required := Inr [], f_statuses := Inr []\<rparr>)) ''main'' bot_pr ()
     = Some (Return (Some ErrMissingCheck), ())"
proof -
  have a: "checkStatusChecks (fixed_client quiet_remote) ''main'' bot_pr () =
           Some (Return
             (if ''failed'' \<in> snd ` set [(''build'', ''success'')] then Some ErrFailedCheck
              else if (\<exists>conclusion \<in> snd ` set [(''build'', ''success'')]. conclusion \<noteq> ''success'')
                      \<or> [(''build'', ''success'')] = []
                   then Some ErrMissingCheck
              else None), ())"
    by (rule checkStatusChecks_classifies
          [where requiredChecks = "[\<lparr>rc_Context = ''build'', rc_AppID = None\<rparr>]"
             and statuses = "[\<lparr>rr_appId = None, rr_context = ''build'', rr_conclusion = ''success''\<rparr>]"
             and checks = "[]" and ?w1.0 = "()" and ?w2.0 = "()"])
       (simp_all add: fixed checkStatuses_fixed checkCheckRuns_fixed quiet)
  have b: "checkStatusChecks (fixed_client (quiet_remote\<lparr>f_required := Inr [], f_statuses := Inr []\<rparr>)) ''main'' bot_pr () =
           Some (Return
             (if ''failed'' \<in> snd ` set ([] :: (string \<times> string) list) then Some ErrFailedCheck
              else if (\<exists>conclusion \<in> snd ` set ([] :: (string \<times> string) list). conclusion \<noteq> ''success'')
                      \<or> ([] :: (string \<times> string) list) = []
                   then Some ErrMissingCheck
              else None), ())"
    by (rule checkStatusChecks_classifies
          [where requiredChecks = "[]"
             and statuses = "[]"
             and checks = "[]" and ?w1.0 = "()" and ?w2.0 = "()"])
       (simp_all add: fixed checkStatuses_fixed checkCheckRuns_fixed quiet)
  from a b show ?thesis by simp
qed

section \<open>Approving, selecting and merging\<close>

lemma recording_sel:
  "PullRequests_List (recording cl) base opts = recorded (PullRequests_List cl base opts) (Call_List base opts)"
  "PullRequests_ListReviews (recording cl) n opts = recorded (PullRequests_ListReviews cl n opts) (Call_ListReviews n opts)"
  "PullRequests_CreateReview (recording cl) n rq = recorded (PullRequests_CreateReview cl n rq) (Call_CreateReview n rq)"
  "PullRequests_SubmitReview (recording cl) n i rq = recorded (PullRequests_SubmitReview cl n i rq) (Call_SubmitReview n i rq)"
  "PullRequests_Get (recording cl) n = recorded (PullRequests_Get cl n) (Call_Get n)"
  "PullRequests_Merge (recording cl) n m mo = recorded (PullRequests_Merge cl n m mo) (Call_Merge n m mo)"
  "Repositories_GetRequiredStatusChecks (recording cl) base = recorded (Repositories_GetRequiredStatusChecks cl base) (Call_GetRequiredStatusChecks base)"
  "Repositories_GetCombinedStatus (recording cl) sha opts = recorded (Repositories_GetCombinedStatus cl sha opts) (Call_GetCombinedStatus sha opts)"
  "Checks_ListCheckRunsForRef (recording cl) sha opts = recorded (Checks_ListCheckRunsForRef cl sha opts) (Call_ListCheckRunsForRef sha opts)"
  "Actions_ListRepositoryWorkflowRuns (recording cl) ref opts = recorded (Actions_ListRepositoryWorkflowRuns cl ref opts) (Call_ListRepositoryWorkflowRuns ref opts)"
  "NewRequest (recording cl) = NewRequest cl"
  "Do (recording cl) req = recorded (Do cl req) (Call_Do req)"
  by (simp_all add: recording_def)

lemma recorded_apply: "f w = (r, w') \<Longrightarrow> recorded f c (w, tr) = (r, w', tr @ [c])"
  by (simp add: recorded_def)

text \<open>
  Claim C9 at its failing input: the pull request has no review yet, \<open>CreateReview\<close>
  succeeds and \<open>SubmitReview\<close> fails. \<open>approvePr\<close> issues the three calls and
  returns nil: the failure of the submit phase is reported as a success.
\<close>

theorem approvePr_submit_failure_reported_as_success:
  "approvePr (recording (fixed_client (quiet_remote\<lparr>f_submit := Inl (Remote ''422 Unprocessable Entity'')\<rparr>)))
     bot_pr ((), [])
   = Some (Return None, (),
       [Call_ListReviews 7 0,
        Call_CreateReview 7 \<lparr>rq_NodeID = None, rq_Body = ''LGTM'', rq_CommitID = ''abc'', rq_Event = ''APPROVE''\<rparr>,
        Call_SubmitReview 7 1 \<lparr>rq_NodeID = None, rq_Body = ''LGTM'', rq_CommitID = ''abc'', rq_Event = ''APPROVE''\<rparr>])"
  unfolding approvePr_def Let_def
  by (subst one_page_list_loop [where xs = "[]" and ?w0.0 = "((), [Call_ListReviews 7 0])"])
     (simp_all add: recording_sel recorded_def fixed_client_sel one_page_def quiet)

text \<open>
  Claim C7. \<open>mergePr\<close> first fetches the pull request again. If the refreshed pull
  request is not rebaseable it returns an error and the fetch is the only call it has
  issued. If it is rebaseable it issues, after the fetch, exactly one call of
  \<open>Merge\<close>, with the method \<open>squash\<close> and the title of the refreshed pull request
  as commit title; it returns nil exactly when the platform answers with a result that
  reports the merge as done, and for a result that reports it as not done it returns
  an error that carries the message of the platform.
\<close>

theorem mergePr_refetches_then_squashes:
  "(case PullRequests_Get cl (pr_Number activePr0) w of
      (Inl err, w1) \<Rightarrow>
        mergePr (recording cl) activePr0 (w, []) = (Some err, w1, [Call_Get (pr_Number activePr0)])
    | (Inr activePr, w1) \<Rightarrow>
        if \<not> GetRebaseable activePr then
          mergePr (recording cl) activePr0 (w, []) =
            (Some (Errorf ''unable to merge %v via squash method, it is not rebaseable''
                     (pr_Number activePr) []),
             w1, [Call_Get (pr_Number activePr0)])
        else
          (case PullRequests_Merge cl (pr_Number activePr) (pr_State activePr)
                  \<lparr>mo_MergeMethod = ''squash'', mo_CommitTitle = pr_Title activePr\<rparr> w1 of
             (merged, w2) \<Rightarrow>
               (\<exists>result.
                  mergePr (recording cl) activePr0 (w, []) =
                    (result, w2,
                     [Call_Get (pr_Number activePr0),
                      Call_Merge (pr_Number activePr) (pr_State activePr)
                        \<lparr>mo_MergeMethod = ''squash'', mo_CommitTitle = pr_Title activePr\<rparr>]) \<and>
                  (result = None \<longleftrightarrow> (\<exists>r. merged = Inr r \<and> GetMerged r)) \<and>
                  (\<forall>r. merged = Inr r \<and> \<not> GetMerged r \<longrightarrow>
                     result = Some (Errorf ''unable to merge %v via squash method: %v''
                                      (pr_Number activePr) (mr_Message r))))))"
  by (auto simp: mergePr_def recording_sel recorded_def split: prod.splits sum.splits)

theorem mergePr_refetches_then_squashes_witness:
  "mergePr (recording (fixed_client quiet_remote)) bot_pr ((), []) =
     (None, (),
      [Call_Get 7,
       Call_Merge 7 ''open'' \<lparr>mo_MergeMethod = ''squash'', mo_CommitTitle = ''Update deps''\<rparr>]) \<and>
   mergePr (recording (fixed_client
       (quiet_remote\<lparr>f_get := Inr (bot_pr\<lparr>pr_Rebaseable := Some False\<rparr>)\<rparr>))) bot_pr ((), []) =
     (Some (Errorf ''unable to merge %v via squash method, it is not rebaseable'' 7 []), (),
      [Call_Get 7]) \<and>
   mergePr (recording (fixed_client
       (quiet_remote\<lparr>f_merge := Inr \<lparr>mr_Merged = Some False, mr_Message = ''Head branch was modified''\<rparr>\<rparr>)))
       bot_pr ((), []) =
     (Some (Errorf ''unable to merge %v via squash method: %v'' 7 ''Head branch was modified''), (),
      [Call_Get 7,
       Call_Merge 7 ''open'' \<lparr>mo_MergeMethod = ''squash'', mo_CommitTitle = ''Update deps''\<rparr>])"
  using mergePr_refetches_then_squashes [of "fixed_client quiet_remote" bot_pr "()"]
    mergePr_refetches_then_squashes
      [of "fixed_client (quiet_remote\<lparr>f_get := Inr (bot_pr\<lparr>pr_Rebaseable := Some False\<rparr>)\<rparr>)"
        bot_pr "()"]
    mergePr_refetches_then_squashes
      [of "fixed_client (quiet_remote\<lparr>f_merge :=
             Inr \<lparr>mr_Merged = Some False, mr_Message = ''Head branch was modified''\<rparr>\<rparr>)"
        bot_pr "()"]
  by (auto simp: fixed_client_sel quiet_remote_def bot_pr_def GetRebaseable_def GetMerged_def)

lemma chooseActivePr_range_last:
  "chooseActivePr_range prs a =
     (if \<exists>pr \<in> set prs. GetMergeable pr then Some (last (filter GetMergeable prs)) else a)"
  by (induction prs arbitrary: a) (auto simp: filter_empty_conv)

lemma mergeStep_no_candidate:
  "listRenovatePrs cl base w = Some (Return (Inr []), w1) \<Longrightarrow>
   mergeStep cl base w = Some (Return (False, None), w1)"
  by (simp add: mergeStep_def and_then_def)

text \<open>
  Claim C6. Of a non-empty list of pull requests of the bot, scanned in the order
  received, \<open>chooseActivePr\<close> returns the last one whose mergeable flag is true, and
  the first of the list when none has it. When the listing leaves no pull request of
  the bot, \<open>mergeStep\<close> selects nothing: it returns \<open>false\<close> (no more work) and no
  error, in the world the listing left.
\<close>

theorem chooseActivePr_last_mergeable_else_first:
  "(renovatePrs \<noteq> [] \<longrightarrow>
      chooseActivePr renovatePrs =
        Return (if \<exists>pr \<in> set renovatePrs. GetMergeable pr
                then last (filter GetMergeable renovatePrs)
                else hd renovatePrs)) \<and>
   (listRenovatePrs cl base w = Some (Return (Inr []), w1) \<longrightarrow>
      mergeStep cl base w = Some (Return (False, None), w1))"
  by (cases renovatePrs)
     (auto simp: chooseActivePr_def chooseActivePr_range_last mergeStep_no_candidate)

theorem chooseActivePr_last_mergeable_else_first_witness:
  "chooseActivePr
     [bot_pr\<lparr>pr_Number := 1, pr_Mergeable := Some False\<rparr>,
      bot_pr\<lparr>pr_Number := 2, pr_Mergeable := Some True\<rparr>,
      bot_pr\<lparr>pr_Number := 3, pr_Mergeable := Some True\<rparr>]
     = Return (bot_pr\<lparr>pr_Number := 3, pr_Mergeable := Some True\<rparr>) \<and>
   chooseActivePr [bot_pr\<lparr>pr_Number := 1, pr_Mergeable := Some False\<rparr>]
     = Return (bot_pr\<lparr>pr_Number := 1, pr_Mergeable := Some False\<rparr>) \<and>
   mergeStep (recording (fixed_client
       (quiet_remote\<lparr>f_prs := Inr [bot_pr\<lparr>pr_Login := ''octocat''\<rparr>]\<rparr>))) ''main'' ((), [])
     = Some (Return (False, None), (), [Call_List ''main'' 0])"
proof -
  let ?cl = "recording (fixed_client
       (quiet_remote\<lparr>f_prs := Inr [bot_pr\<lparr>pr_Login := ''octocat''\<rparr>]\<rparr>))"
  have l: "listRenovatePrs ?cl ''main'' ((), []) = Some (Return (Inr []), (), [Call_List ''main'' 0])"
    unfolding listRenovatePrs_def Let_def
    by (subst one_page_list_loop [where xs = "[bot_pr\<lparr>pr_Login := ''octocat''\<rparr>]"
          and ?w0.0 = "((), [Call_List ''main'' 0])"])
       (simp_all add: recording_sel recorded_def fixed_client_sel one_page_def quiet)
  show ?thesis
    using chooseActivePr_last_mergeable_else_first
        [of "[bot_pr\<lparr>pr_Number := 1, pr_Mergeable := Some False\<rparr>,
              bot_pr\<lparr>pr_Number := 2, pr_Mergeable := Some True\<rparr>,
              bot_pr\<lparr>pr_Number := 3, pr_Mergeable := Some True\<rparr>]"
            ?cl "''main''" "((), [])" "((), [Call_List ''main'' 0])"]
      chooseActivePr_last_mergeable_else_first
        [of "[bot_pr\<lparr>pr_Number := 1, pr_Mergeable := Some False\<rparr>]"
            ?cl "''main''" "((), [])" "((), [Call_List ''main'' 0])"]
      l
    by (simp add: GetMergeable_def bot_pr_def)
qed

section \<open>The loop of MergePRs\<close>


lemma MergePRs_loop_stop:
  "i < 100 \<Longrightarrow> errCount < 10 \<Longrightarrow> step w = Some (Return (False, e), w') \<Longrightarrow>
   MergePRs_loop step sleep i errCount err lg w =
     Some (Return e, lg @ [Iteration i, No_more_work], w')"
  by (subst MergePRs_loop.simps) simp

lemma MergePRs_loop_retry:
  "i < 100 \<Longrightarrow> errCount < 10 \<Longrightarrow> step w = Some (Return (True, Some e), w') \<Longrightarrow>
   MergePRs_loop step sleep i errCount err lg w =
     MergePRs_loop step sleep (i + 1) (errCount + 1) (Some e)
       (lg @ [Iteration i, Error_sleeping e]) (sleep w')"
  by (subst MergePRs_loop.simps) simp









section \<open>One step\<close>

lemma mergeStep_listing_failed:
  "listRenovatePrs cl base w = Some (Return (Inl e), w1) \<Longrightarrow>
   mergeStep cl base w = Some (Return (False, Some e), w1)"
  by (simp add: mergeStep_def and_then_def)

lemma mergeStep_gating_failed:
  assumes "listRenovatePrs cl base w = Some (Return (Inr renovatePrs), w1)"
    and "renovatePrs \<noteq> []" and "chooseActivePr renovatePrs = Return activePr"
    and "approveWorkflowRuns cl activePr w1 = Some (Return (Some e), w2)"
  shows "mergeStep cl base w = Some (Return (True, Some e), w2)"
  using assms by (simp add: mergeStep_def and_then_def)

lemma mergeStep_check_failed:
  assumes "listRenovatePrs cl base w = Some (Return (Inr renovatePrs), w1)"
    and "renovatePrs \<noteq> []" and "chooseActivePr renovatePrs = Return activePr"
    and "approveWorkflowRuns cl activePr w1 = Some (Return None, w2)"
    and "checkStatusChecks cl base activePr w2 = Some (Return (Some e), w3)"
  shows "mergeStep cl base w = Some (Return (e = ErrMissingCheck, Some e), w3)"
  using assms by (simp add: mergeStep_def and_then_def)

lemma mergeStep_review_failed:
  assumes "listRenovatePrs cl base w = Some (Return (Inr renovatePrs), w1)"
    and "renovatePrs \<noteq> []" and "chooseActivePr renovatePrs = Return activePr"
    and "approveWorkflowRuns cl activePr w1 = Some (Return None, w2)"
    and "checkStatusChecks cl base activePr w2 = Some (Return None, w3)"
    and "approvePr cl activePr w3 = Some (Return (Some e), w4)"
  shows "mergeStep cl base w = Some (Return (True, Some e), w4)"
  using assms by (simp add: mergeStep_def and_then_def)

lemma mergeStep_merge:
  assumes "listRenovatePrs cl base w = Some (Return (Inr renovatePrs), w1)"
    and "renovatePrs \<noteq> []" and "chooseActivePr renovatePrs = Return activePr"
    and "approveWorkflowRuns cl activePr w1 = Some (Return None, w2)"
    and "checkStatusChecks cl base activePr w2 = Some (Return None, w3)"
    and "approvePr cl activePr w3 = Some (Return None, w4)"
    and "mergePr cl activePr w4 = (r, w5)"
  shows "mergeStep cl base w = Some (Return (True, r), w5)"
  using assms by (simp add: mergeStep_def and_then_def)

text \<open>
  Claim C5, as the code has it. A failure while listing the candidates makes
  \<open>mergeStep\<close> return \<open>(false, err)\<close>. Once a pull request is selected: an error of
  \<open>approveWorkflowRuns\<close>, of \<open>approvePr\<close> or of \<open>mergePr\<close> makes it return
  \<open>(true, err)\<close>; an error of \<open>checkStatusChecks\<close> makes it return \<open>(true, err)\<close>
  when it is \<open>ErrMissingCheck\<close> and \<open>(false, err)\<close> when it is any other error, the
  verdict \<open>ErrFailedCheck\<close> as well as an error of one of the three fetches. In the
  loop of \<open>MergePRs\<close>, a step that returns \<open>(true, err)\<close> is counted and followed,
  after the sleep, by the next iteration; a step that returns \<open>(false, err)\<close> ends the
  run with \<open>err\<close>.
\<close>

theorem mergeStep_retryable_and_terminal_errors:
  "(listRenovatePrs cl base w = Some (Return (Inl e), w1) \<longrightarrow>
      mergeStep cl base w = Some (Return (False, Some e), w1)) \<and>
   (listRenovatePrs cl base w = Some (Return (Inr renovatePrs), w1) \<and> renovatePrs \<noteq> [] \<and>
    chooseActivePr renovatePrs = Return activePr \<longrightarrow>
      (approveWorkflowRuns cl activePr w1 = Some (Return (Some e), w2) \<longrightarrow>
         mergeStep cl base w = Some (Return (True, Some e), w2)) \<and>
      (approveWorkflowRuns cl activePr w1 = Some (Return None, w2) \<and>
       checkStatusChecks cl base activePr w2 = Some (Return (Some e), w3) \<longrightarrow>
         mergeStep cl base w = Some (Return (e = ErrMissingCheck, Some e), w3)) \<and>
      (approveWorkflowRuns cl activePr w1 = Some (Return None, w2) \<and>
       checkStatusChecks cl base activePr w2 = Some (Return None, w3) \<and>
       approvePr cl activePr w3 = Some (Return (Some e), w4) \<longrightarrow>
         mergeStep cl base w = Some (Return (True, Some e), w4)) \<and>
      (approveWorkflowRuns cl activePr w1 = Some (Return None, w2) \<and>
       checkStatusChecks cl base activePr w2 = Some (Return None, w3) \<and>
       approvePr cl activePr w3 = Some (Return None, w4) \<and>
       mergePr cl activePr w4 = (Some e, w5) \<longrightarrow>
         mergeStep cl base w = Some (Return (True, Some e), w5))) \<and>
   (i < 100 \<and> errCount < 10 \<and> mergeStep cl base w = Some (Return (True, Some e), w') \<longrightarrow>
      MergePRs_loop (mergeStep cl base) (Sleep cl) i errCount err lg w =
        MergePRs_loop (mergeStep cl base) (Sleep cl) (i + 1) (errCount + 1) (Some e)
          (lg @ [Iteration i, Error_sleeping e]) (Sleep cl w')) \<and>
   (i < 100 \<and> errCount < 10 \<and> mergeStep cl base w = Some (Return (False, Some e), w') \<longrightarrow>
      MergePRs_loop (mergeStep cl base) (Sleep cl) i errCount err lg w =
        Some (Return (Some e), lg @ [Iteration i, No_more_work], w'))"
  by (auto simp: mergeStep_listing_failed mergeStep_gating_failed mergeStep_check_failed
      mergeStep_review_failed mergeStep_merge MergePRs_loop_retry MergePRs_loop_stop)

theorem mergeStep_retryable_and_terminal_errors_witness:
  "mergeStep (fixed_client (quiet_remote\<lparr>f_prs := Inl bad_gateway\<rparr>)) ''main'' ()
     = Some (Return (False, Some bad_gateway), ()) \<and>
   mergeStep (fixed_client
       (quiet_remote\<lparr>f_runs := Inr [\<lparr>wr_HeadSHA = ''abc'', wr_URL = ''/runs/1''\<rparr>],
                     f_do := Some bad_gateway\<rparr>)) ''main'' ()
     = Some (Return (True, Some (Wrapped ''Can't approve workflow: %v'' bad_gateway)), ()) \<and>
   mergeStep (fixed_client
       (quiet_remote\<lparr>f_statuses := Inr [\<lparr>st_Context = ''build'', st_State = ''pending''\<rparr>]\<rparr>)) ''main'' ()
     = Some (Return (True, Some ErrMissingCheck), ()) \<and>
   mergeStep (fixed_client (quiet_remote\<lparr>f_check_runs := Inl bad_gateway\<rparr>)) ''main'' ()
     = Some (Return (False, Some (Wrapped ''can't list check runs: %v/%v %v %v %v'' bad_gateway)), ()) \<and>
   mergeStep (fixed_client (quiet_remote\<lparr>f_create := Inl bad_gateway\<rparr>)) ''main'' ()
     = Some (Return (True, Some (Wrapped ''can't create LGTM review: %v/%v %v %v %v'' bad_gateway)), ()) \<and>
   mergeStep (fixed_client (quiet_remote\<lparr>f_merge := Inl (Remote ''405 Method Not Allowed'')\<rparr>)) ''main'' ()
     = Some (Return (True, Some not_allowed), ()) \<and>
   MergePRs_loop (mergeStep (fixed_client (quiet_remote\<lparr>f_create := Inl bad_gateway\<rparr>)) ''main'')
       (Sleep (fixed_client (quiet_remote\<lparr>f_create := Inl bad_gateway\<rparr>))) 1 0 None [] ()
     = MergePRs_loop (mergeStep (fixed_client (quiet_remote\<lparr>f_create := Inl bad_gateway\<rparr>)) ''main'')
         (Sleep (fixed_client (quiet_remote\<lparr>f_create := Inl bad_gateway\<rparr>))) 2 1
         (Some (Wrapped ''can't create LGTM review: %v/%v %v %v %v'' bad_gateway))
         [Iteration 1, Error_sleeping (Wrapped ''can't create LGTM review: %v/%v %v %v %v'' bad_gateway)]
         () \<and>
   MergePRs_loop (mergeStep (fixed_client (quiet_remote\<lparr>f_check_runs := Inl bad_gateway\<rparr>)) ''main'')
       (Sleep (fixed_client (quiet_remote\<lparr>f_check_runs := Inl bad_gateway\<rparr>))) 1 0 None [] ()
     = Some (Return (Some (Wrapped ''can't list check runs: %v/%v %v %v %v'' bad_gateway)),
         [Iteration 1, No_more_work], ())"
proof -
  let ?l = "fixed_client (quiet_remote\<lparr>f_prs := Inl bad_gateway\<rparr>)"
  let ?g = "fixed_client
       (quiet_remote\<lparr>f_runs := Inr [\<lparr>wr_HeadSHA = ''abc'', wr_URL = ''/runs/1''\<rparr>],
                     f_do := Some bad_gateway\<rparr>)"
  let ?p = "fixed_client
       (quiet_remote\<lparr>f_statuses := Inr [\<lparr>st_Context = ''build'', st_State = ''pending''\<rparr>]\<rparr>)"
  let ?a = "fixed_client (quiet_remote\<lparr>f_create := Inl bad_gateway\<rparr>)"
  let ?b = "fixed_client (quiet_remote\<lparr>f_check_runs := Inl bad_gateway\<rparr>)"
  let ?m = "fixed_client (quiet_remote\<lparr>f_merge := Inl (Remote ''405 Method Not Allowed'')\<rparr>)"
  let ?ea = "Wrapped ''can't create LGTM review: %v/%v %v %v %v'' bad_gateway"
  let ?eb = "Wrapped ''can't list check runs: %v/%v %v %v %v'' bad_gateway"
  let ?eg = "Wrapped ''Can't approve workflow: %v'' bad_gateway"
  note t = mergeStep_retryable_and_terminal_errors
    [where base = "''main''" and w = "()" and ?w1.0 = "()" and ?w2.0 = "()" and ?w3.0 = "()"
       and ?w4.0 = "()" and ?w5.0 = "()" and w' = "()" and renovatePrs = "[bot_pr]"
       and activePr = bot_pr and i = 1 and errCount = 0 and err = None and lg = "[]"]
  have l: "mergeStep ?l ''main'' () = Some (Return (False, Some bad_gateway), ())"
    using t [where cl = ?l and e = bad_gateway] by (simp add: fixed quiet)
  have g: "mergeStep ?g ''main'' () = Some (Return (True, Some ?eg), ())"
    using t [where cl = ?g and e = ?eg] by (simp add: fixed quiet)
  have p: "mergeStep ?p ''main'' () = Some (Return (True, Some ErrMissingCheck), ())"
    using t [where cl = ?p and e = ErrMissingCheck] by (simp add: fixed quiet)
  have b: "mergeStep ?b ''main'' () = Some (Return (False, Some ?eb), ())"
    using t [where cl = ?b and e = ?eb] by (simp add: fixed quiet bad_gateway_def)
  have a: "mergeStep ?a ''main'' () = Some (Return (True, Some ?ea), ())"
    using t [where cl = ?a and e = ?ea] by (simp add: fixed quiet)
  have m: "mergeStep ?m ''main'' () = Some (Return (True, Some not_allowed), ())"
    using t [where cl = ?m and e = not_allowed] by (simp add: fixed quiet not_allowed_def)
  have r: "MergePRs_loop (mergeStep ?a ''main'') (Sleep ?a) 1 0 None [] ()
     = MergePRs_loop (mergeStep ?a ''main'') (Sleep ?a) 2 1 (Some ?ea)
         [Iteration 1, Error_sleeping ?ea] ()"
    using t [where cl = ?a and e = ?ea, THEN conjunct2, THEN conjunct2, THEN conjunct1] a
    by (simp add: fixed_client_sel numeral_2_eq_2)
  have c: "MergePRs_loop (mergeStep ?b ''main'') (Sleep ?b) 1 0 None [] ()
     = Some (Return (Some ?eb), [Iteration 1, No_more_work], ())"
    using t [where cl = ?b and e = ?eb, THEN conjunct2, THEN conjunct2, THEN conjunct2] b
    by simp
  from l g p b a m r c show ?thesis by blast
qed

text \<open>
  Claim C5 as stated fails for an error while the checks are fetched: when the fetch of
  the required checks fails, the run ends after its first iteration with that error;
  it is not retried.
\<close>

theorem transport_error_in_checks_ends_run_counterexample:
  "MergePRs (fixed_client (quiet_remote\<lparr>f_required := Inl (Remote ''502 Bad Gateway'')\<rparr>)) ''main'' ()
     = Some (Return (Some (Remote ''502 Bad Gateway'')), [Iteration 1, No_more_work], ())"
  by (simp add: MergePRs_def MergePRs_loop_stop
       [where e = "Some (Remote ''502 Bad Gateway'')" and w' = "()"]
       mergeStep_def fixed quiet)



end
